theory Spec2Isabelle
  imports Complex_Main
begin

section \<open>Data model (src/lib/database.ts, the row types of the tables)\<close>

text \<open>
  Amounts and balances are JavaScript numbers in the source and DECIMAL columns in the
  store; they are modelled as exact rationals, so rounding is not part of the model.
  Timestamps (ISO strings in the source) are milliseconds since the epoch, as
  \<open>Date.getTime()\<close> reads them. Row identifiers (UUID strings in the source) are
  natural numbers handed out by the store. Free-text notes and notification messages
  are left out: no operation reads them.
\<close>

datatype asset = BTC | ETH | USDT | USDC

datatype tx_type = DEPOSIT | WITHDRAW | EXCHANGE | INVEST

datatype tx_status = PENDING | COMPLETED | REJECTED

text \<open>The subscription status COMPLETED is written \<open>SUB_COMPLETED\<close>, the name
  COMPLETED being taken by the transaction status.\<close>

datatype sub_status = ACTIVE | SUB_COMPLETED | CANCELLED

record wallet =
  wallet_id :: nat
  wallet_user_id :: "nat option"
  wallet_asset :: asset
  balance :: rat

record transaction =
  tx_id :: nat
  tx_user_id :: nat
  tx_type :: tx_type
  tx_asset :: asset
  tx_amount :: rat
  tx_status :: tx_status
  from_asset :: "asset option"
  to_asset :: "asset option"
  tx_plan_id :: "nat option"

record plan =
  plan_id :: nat
  plan_name :: string
  duration_days :: int
  apy :: rat
  min_amount :: rat
  max_amount :: "rat option"
  is_active :: bool

record subscription =
  sub_id :: nat
  sub_user_id :: nat
  sub_plan_id :: nat
  amount :: rat
  start_date :: int
  end_date :: int
  status :: sub_status
  total_earned :: rat

record notification =
  notif_user_id :: nat
  title :: string
  notif_type :: string

record TransactionRequest =
  req_type :: tx_type
  req_asset :: asset
  req_amount :: rat
  fromAsset :: "asset option"
  toAsset :: "asset option"
  planId :: "nat option"

record InvestmentRequest =
  inv_planId :: nat
  inv_amount :: rat
  inv_asset :: asset

datatype audit_details =
    TransactionDetails TransactionRequest
  | InvestmentCreatedDetails nat rat asset
  | InvestmentCancelledDetails rat rat int
  | WithdrawalApprovedDetails nat nat
  | WithdrawalRejectedDetails nat nat string

record audit_log =
  actor :: nat
  action :: string
  resource :: string
  resource_id :: nat
  details :: audit_details

text \<open>
  The store behind \<open>db\<close>: one list of rows per table, in insertion order. The store is
  an external service whose writes can fail; \<open>failing_wallets\<close> is the environment's
  choice of the wallet rows whose update is refused (the source's
  \<open>updateWalletBalance\<close> then logs the error and returns null).
\<close>

record database =
  wallets :: "wallet list"
  transactions :: "transaction list"
  plans :: "plan list"
  subscriptions :: "subscription list"
  notifications :: "notification list"
  audit_logs :: "audit_log list"
  next_id :: nat
  failing_wallets :: "nat list"

record plan_update =
  upd_apy :: "rat option"
  upd_duration_days :: "int option"
  upd_min_amount :: "rat option"
  upd_max_amount :: "rat option option"
  upd_is_active :: "bool option"

record subscription_update =
  upd_status :: "sub_status option"
  upd_total_earned :: "rat option"

datatype error =
    WalletNotFound
  | InsufficientBalance
  | MinimumAmount asset rat
  | InsufficientBalanceForInvestment
  | PlanNotFoundOrInactive
  | MinimumInvestment rat
  | MaximumInvestment rat
  | FailedToCreateInvestmentTransaction
  | FailedToCreateInvestmentSubscription
  | FailedToCreateInvestment
  | InvestmentNotFound
  | InvestmentNotActive

section \<open>DatabaseService (src/lib/database.ts)\<close>

text \<open>\<open>getUserWallets\<close>: the rows of the user. The source orders them by asset, which
  does not change which row a later \<open>find\<close> by asset returns when a user holds one
  wallet per asset.\<close>

definition getUserWallets :: "database \<Rightarrow> nat \<Rightarrow> wallet list" where
  "getUserWallets db userId = filter (\<lambda>w. wallet_user_id w = Some userId) (wallets db)"

definition set_balance :: "nat \<Rightarrow> rat \<Rightarrow> wallet \<Rightarrow> wallet" where
  "set_balance wid b w = (if wallet_id w = wid then w\<lparr>balance := b\<rparr> else w)"

definition updateWalletBalance :: "database \<Rightarrow> nat \<Rightarrow> rat \<Rightarrow> wallet option \<times> database" where
  "updateWalletBalance db wid b =
     (if wid \<in> set (failing_wallets db) then (None, db)
      else case find (\<lambda>w. wallet_id w = wid) (wallets db) of
             None \<Rightarrow> (None, db)
           | Some w \<Rightarrow> (Some (w\<lparr>balance := b\<rparr>),
                        db\<lparr>wallets := map (set_balance wid b) (wallets db)\<rparr>))"

definition db_createTransaction ::
  "database \<Rightarrow> nat \<Rightarrow> tx_type \<Rightarrow> asset \<Rightarrow> rat \<Rightarrow> tx_status \<Rightarrow> asset option \<Rightarrow> asset option
     \<Rightarrow> nat option \<Rightarrow> transaction option \<times> database" where
  "db_createTransaction db uid ty a amt st fa ta pid =
     (let row = \<lparr>tx_id = next_id db, tx_user_id = uid, tx_type = ty, tx_asset = a,
                 tx_amount = amt, tx_status = st, from_asset = fa, to_asset = ta,
                 tx_plan_id = pid\<rparr>
      in (Some row, db\<lparr>transactions := transactions db @ [row], next_id := Suc (next_id db)\<rparr>))"

definition set_tx_status :: "nat \<Rightarrow> tx_status \<Rightarrow> transaction \<Rightarrow> transaction" where
  "set_tx_status tid st t = (if tx_id t = tid then t\<lparr>tx_status := st\<rparr> else t)"

definition updateTransactionStatus :: "database \<Rightarrow> nat \<Rightarrow> tx_status \<Rightarrow> database" where
  "updateTransactionStatus db tid st =
     db\<lparr>transactions := map (set_tx_status tid st) (transactions db)\<rparr>"

definition apply_plan_update :: "plan_update \<Rightarrow> plan \<Rightarrow> plan" where
  "apply_plan_update u p =
     p\<lparr>apy := (case upd_apy u of None \<Rightarrow> apy p | Some v \<Rightarrow> v),
       duration_days := (case upd_duration_days u of None \<Rightarrow> duration_days p | Some v \<Rightarrow> v),
       min_amount := (case upd_min_amount u of None \<Rightarrow> min_amount p | Some v \<Rightarrow> v),
       max_amount := (case upd_max_amount u of None \<Rightarrow> max_amount p | Some v \<Rightarrow> v),
       is_active := (case upd_is_active u of None \<Rightarrow> is_active p | Some v \<Rightarrow> v)\<rparr>"

definition updatePlan :: "database \<Rightarrow> nat \<Rightarrow> plan_update \<Rightarrow> database" where
  "updatePlan db pid u =
     db\<lparr>plans := map (\<lambda>p. if plan_id p = pid then apply_plan_update u p else p) (plans db)\<rparr>"

definition createSubscription ::
  "database \<Rightarrow> nat \<Rightarrow> nat \<Rightarrow> rat \<Rightarrow> int \<Rightarrow> int \<Rightarrow> sub_status \<Rightarrow> rat
     \<Rightarrow> subscription option \<times> database" where
  "createSubscription db uid pid amt sd ed st te =
     (let row = \<lparr>sub_id = next_id db, sub_user_id = uid, sub_plan_id = pid, amount = amt,
                 start_date = sd, end_date = ed, status = st, total_earned = te\<rparr>
      in (Some row, db\<lparr>subscriptions := subscriptions db @ [row], next_id := Suc (next_id db)\<rparr>))"

definition apply_subscription_update :: "nat \<Rightarrow> subscription_update \<Rightarrow> subscription \<Rightarrow> subscription" where
  "apply_subscription_update sid u s =
     (if sub_id s = sid
      then s\<lparr>status := (case upd_status u of None \<Rightarrow> status s | Some v \<Rightarrow> v),
             total_earned := (case upd_total_earned u of None \<Rightarrow> total_earned s | Some v \<Rightarrow> v)\<rparr>
      else s)"

definition updateSubscription :: "database \<Rightarrow> nat \<Rightarrow> subscription_update \<Rightarrow> database" where
  "updateSubscription db sid u =
     db\<lparr>subscriptions := map (apply_subscription_update sid u) (subscriptions db)\<rparr>"

definition createNotification :: "database \<Rightarrow> nat \<Rightarrow> string \<Rightarrow> string \<Rightarrow> database" where
  "createNotification db uid t ty =
     db\<lparr>notifications := notifications db @ [\<lparr>notif_user_id = uid, title = t, notif_type = ty\<rparr>]\<rparr>"

definition createAuditLog :: "database \<Rightarrow> nat \<Rightarrow> string \<Rightarrow> string \<Rightarrow> nat \<Rightarrow> audit_details \<Rightarrow> database" where
  "createAuditLog db uid act res rid d =
     db\<lparr>audit_logs := audit_logs db @
        [\<lparr>actor = uid, action = act, resource = res, resource_id = rid, details = d\<rparr>]\<rparr>"

section \<open>WalletService (the walletService module, in src/database/fix-investment-plans-table.sql)\<close>

definition getNetworkFee :: "asset \<Rightarrow> rat" where
  "getNetworkFee a = (case a of BTC \<Rightarrow> 1 / 10000 | ETH \<Rightarrow> 2 / 1000 | USDT \<Rightarrow> 1 | USDC \<Rightarrow> 1)"

definition minAmounts :: "asset \<Rightarrow> rat" where
  "minAmounts a = (case a of BTC \<Rightarrow> 1 / 1000 | ETH \<Rightarrow> 1 / 100 | USDT \<Rightarrow> 10 | USDC \<Rightarrow> 10)"

text \<open>\<open>validateTransaction\<close>: \<open>None\<close> is \<open>{valid: true}\<close>, \<open>Some e\<close> is
  \<open>{valid: false, error: e}\<close>. The source's \<open>switch\<close> has one shared branch for
  WITHDRAW and EXCHANGE; it is the last branch here.\<close>

definition validateTransaction :: "database \<Rightarrow> nat \<Rightarrow> TransactionRequest \<Rightarrow> error option" where
  "validateTransaction db userId request =
     (let ws = getUserWallets db userId in
      case req_type request of
        DEPOSIT \<Rightarrow> None
      | INVEST \<Rightarrow>
          (case find (\<lambda>w. wallet_asset w = req_asset request) ws of
             None \<Rightarrow> Some InsufficientBalanceForInvestment
           | Some investWallet \<Rightarrow>
               if balance investWallet < req_amount request
               then Some InsufficientBalanceForInvestment else None)
      | _ \<Rightarrow>
          (case find (\<lambda>w. wallet_asset w = req_asset request) ws of
             None \<Rightarrow> Some WalletNotFound
           | Some w \<Rightarrow>
               if balance w < req_amount request then Some InsufficientBalance
               else if req_amount request < minAmounts (req_asset request)
               then Some (MinimumAmount (req_asset request) (minAmounts (req_asset request)))
               else None))"

definition processDeposit :: "database \<Rightarrow> nat \<Rightarrow> asset \<Rightarrow> rat \<Rightarrow> bool \<times> database" where
  "processDeposit db userId a amt =
     (case find (\<lambda>w. wallet_asset w = a) (getUserWallets db userId) of
        None \<Rightarrow> (False, db)
      | Some w \<Rightarrow>
          (case updateWalletBalance db (wallet_id w) (balance w + amt) of
             (None, db') \<Rightarrow> (False, db')
           | (Some _, db') \<Rightarrow> (True, db')))"

definition processWithdrawal :: "database \<Rightarrow> nat \<Rightarrow> asset \<Rightarrow> rat \<Rightarrow> bool \<times> database" where
  "processWithdrawal db userId a amt =
     (case find (\<lambda>w. wallet_asset w = a) (getUserWallets db userId) of
        None \<Rightarrow> (False, db)
      | Some w \<Rightarrow>
          if balance w < amt then (False, db)
          else let totalDeduction = amt + getNetworkFee a in
            if balance w < totalDeduction then (False, db)
            else (case updateWalletBalance db (wallet_id w) (balance w - totalDeduction) of
                    (None, db') \<Rightarrow> (False, db')
                  | (Some _, db') \<Rightarrow> (True, db')))"

text \<open>\<open>processExchange\<close>: the conversion rate \<open>cryptoAPI.convertCrypto(1, from, to)\<close>
  comes from a module that is not part of the services; it is the parameter \<open>cv\<close>. The
  two asset names are strings in the source and assets here (a name that is no asset
  finds no wallet). The results of the two balance updates are not inspected by the
  source.\<close>

definition processExchange ::
  "(asset \<Rightarrow> asset \<Rightarrow> rat) \<Rightarrow> database \<Rightarrow> nat \<Rightarrow> asset \<Rightarrow> asset \<Rightarrow> rat \<Rightarrow> bool \<times> database" where
  "processExchange cv db userId fa ta amt =
     (let ws = getUserWallets db userId in
      case (find (\<lambda>w. wallet_asset w = fa) ws, find (\<lambda>w. wallet_asset w = ta) ws) of
        (Some fromWallet, Some toWallet) \<Rightarrow>
          if balance fromWallet < amt then (False, db)
          else
            let exchangeRate = cv fa ta;
                exchangeFee = 1 / 1000;
                receivedAmount = (amt * exchangeRate) * (1 - exchangeFee);
                db1 = snd (updateWalletBalance db (wallet_id fromWallet) (balance fromWallet - amt));
                db2 = snd (updateWalletBalance db1 (wallet_id toWallet) (balance toWallet + receivedAmount))
            in (True, db2)
      | _ \<Rightarrow> (False, db))"

definition finishTransaction :: "database \<Rightarrow> transaction \<Rightarrow> bool \<Rightarrow> database" where
  "finishTransaction db t success =
     (if success
      then createNotification (updateTransactionStatus db (tx_id t) COMPLETED)
             (tx_user_id t) ''Transaction Completed'' ''SUCCESS''
      else createNotification (updateTransactionStatus db (tx_id t) REJECTED)
             (tx_user_id t) ''Transaction Failed'' ''ERROR'')"

definition processTransaction :: "(asset \<Rightarrow> asset \<Rightarrow> rat) \<Rightarrow> database \<Rightarrow> transaction \<Rightarrow> database" where
  "processTransaction cv db t =
     (case tx_type t of
        DEPOSIT \<Rightarrow>
          (case processDeposit db (tx_user_id t) (tx_asset t) (tx_amount t) of
             (success, db') \<Rightarrow> finishTransaction db' t success)
      | WITHDRAW \<Rightarrow>
          createNotification db (tx_user_id t) ''Withdrawal Request Submitted'' ''INFO''
      | EXCHANGE \<Rightarrow>
          (case (from_asset t, to_asset t) of
             (Some fa, Some ta) \<Rightarrow>
               (case processExchange cv db (tx_user_id t) fa ta (tx_amount t) of
                  (success, db') \<Rightarrow> finishTransaction db' t success)
           | _ \<Rightarrow> finishTransaction db t False)
      | INVEST \<Rightarrow> finishTransaction db t True)"

text \<open>\<open>createTransaction\<close>: \<open>Inl e\<close> is the exception thrown when validation fails;
  otherwise the store after the call. The source's function is declared
  \<open>Promise<void>\<close> and has no return statement.\<close>

definition tx_action :: "tx_type \<Rightarrow> string" where
  "tx_action ty = (case ty of DEPOSIT \<Rightarrow> ''TRANSACTION_DEPOSIT'' | WITHDRAW \<Rightarrow> ''TRANSACTION_WITHDRAW''
                    | EXCHANGE \<Rightarrow> ''TRANSACTION_EXCHANGE'' | INVEST \<Rightarrow> ''TRANSACTION_INVEST'')"

definition createTransaction ::
  "(asset \<Rightarrow> asset \<Rightarrow> rat) \<Rightarrow> database \<Rightarrow> nat \<Rightarrow> TransactionRequest \<Rightarrow> error + database" where
  "createTransaction cv db userId request =
     (case validateTransaction db userId request of
        Some e \<Rightarrow> Inl e
      | None \<Rightarrow>
          (case db_createTransaction db userId (req_type request) (req_asset request)
                  (req_amount request) PENDING (fromAsset request) (toAsset request)
                  (planId request) of
             (None, db1) \<Rightarrow> Inr db1
           | (Some t, db1) \<Rightarrow>
               Inr (createAuditLog (processTransaction cv db1 t) userId
                      (tx_action (req_type request)) ''transactions'' (tx_id t)
                      (TransactionDetails request))))"

definition getTransactionById :: "database \<Rightarrow> nat \<Rightarrow> transaction option" where
  "getTransactionById db tid = find (\<lambda>t. tx_id t = tid) (transactions db)"

definition approveWithdrawal :: "database \<Rightarrow> nat \<Rightarrow> nat \<Rightarrow> bool \<times> database" where
  "approveWithdrawal db transactionId adminId =
     (case getTransactionById db transactionId of
        None \<Rightarrow> (False, db)
      | Some t \<Rightarrow>
          if tx_type t \<noteq> WITHDRAW \<or> tx_status t \<noteq> PENDING then (False, db)
          else (case processWithdrawal db (tx_user_id t) (tx_asset t) (tx_amount t) of
                  (success, db1) \<Rightarrow>
                    if success
                    then (True,
                          createNotification
                            (createAuditLog (updateTransactionStatus db1 transactionId COMPLETED)
                               adminId ''WITHDRAWAL_APPROVED'' ''transactions'' transactionId
                               (WithdrawalApprovedDetails transactionId adminId))
                            (tx_user_id t) ''Withdrawal Approved'' ''SUCCESS'')
                    else (False, db1)))"

definition rejectWithdrawal :: "database \<Rightarrow> nat \<Rightarrow> nat \<Rightarrow> string \<Rightarrow> bool \<times> database" where
  "rejectWithdrawal db transactionId adminId reason =
     (case getTransactionById db transactionId of
        None \<Rightarrow> (False, db)
      | Some t \<Rightarrow>
          if tx_type t \<noteq> WITHDRAW \<or> tx_status t \<noteq> PENDING then (False, db)
          else (True,
                createNotification
                  (createAuditLog (updateTransactionStatus db transactionId REJECTED)
                     adminId ''WITHDRAWAL_REJECTED'' ''transactions'' transactionId
                     (WithdrawalRejectedDetails transactionId adminId reason))
                  (tx_user_id t) ''Withdrawal Rejected'' ''ERROR''))"

section \<open>InvestmentService (src/services/investmentService.ts)\<close>

definition day_ms :: int where
  "day_ms = 1000 * 60 * 60 * 24"

definition validateInvestment :: "database \<Rightarrow> nat \<Rightarrow> InvestmentRequest \<Rightarrow> error + plan" where
  "validateInvestment db userId request =
     (case find (\<lambda>p. plan_id p = inv_planId request \<and> is_active p) (plans db) of
        None \<Rightarrow> Inl PlanNotFoundOrInactive
      | Some p \<Rightarrow>
          if inv_amount request < min_amount p then Inl (MinimumInvestment (min_amount p))
          else (case max_amount p of
                  None \<Rightarrow> Inr p
                | Some m \<Rightarrow>
                    if m \<noteq> 0 \<and> inv_amount request > m then Inl (MaximumInvestment m)
                    else Inr p))"

text \<open>
  \<open>createInvestment\<close>: \<open>now\<close> is the clock reading of \<open>new Date()\<close>. The value the
  source binds to \<open>transaction\<close> is what \<open>await walletService.createTransaction(...)\<close>
  yields; that function resolves to no value, so \<open>awaited_transaction\<close> is \<open>None\<close>
  (JavaScript's undefined) whatever the store holds, and the source then tests
  \<open>!transaction\<close>. \<open>setDate(getDate() + duration_days)\<close> moves the end date by whole
  days.
\<close>

definition awaited_transaction :: "database \<Rightarrow> transaction option" where
  "awaited_transaction db = None"

definition createInvestment ::
  "(asset \<Rightarrow> asset \<Rightarrow> rat) \<Rightarrow> database \<Rightarrow> int \<Rightarrow> nat \<Rightarrow> InvestmentRequest \<Rightarrow> (error + nat) \<times> database" where
  "createInvestment cv db now userId request =
     (case validateInvestment db userId request of
        Inl e \<Rightarrow> (Inl e, db)
      | Inr p \<Rightarrow>
          (case find (\<lambda>w. wallet_asset w = inv_asset request) (getUserWallets db userId) of
             None \<Rightarrow> (Inl InsufficientBalance, db)
           | Some w \<Rightarrow>
               if balance w < inv_amount request then (Inl InsufficientBalance, db)
               else
                 (case createTransaction cv db userId
                         \<lparr>req_type = INVEST, req_asset = inv_asset request,
                          req_amount = inv_amount request, fromAsset = None, toAsset = None,
                          planId = Some (inv_planId request)\<rparr> of
                    Inl e \<Rightarrow> (Inl FailedToCreateInvestment, db)
                  | Inr db1 \<Rightarrow>
                      (case awaited_transaction db1 of
                         None \<Rightarrow> (Inl FailedToCreateInvestmentTransaction, db1)
                       | Some t \<Rightarrow>
                           (case createSubscription db1 userId (inv_planId request)
                                   (inv_amount request) now (now + duration_days p * day_ms)
                                   ACTIVE 0 of
                              (None, db2) \<Rightarrow> (Inl FailedToCreateInvestmentSubscription, db2)
                            | (Some s, db2) \<Rightarrow>
                                (let db3 = snd (updateWalletBalance db2 (wallet_id w)
                                                  (balance w - inv_amount request));
                                     db4 = createAuditLog db3 userId ''INVESTMENT_CREATED''
                                             ''subscriptions'' (sub_id s)
                                             (InvestmentCreatedDetails (inv_planId request)
                                                (inv_amount request) (inv_asset request));
                                     db5 = createNotification db4 userId ''Investment Created''
                                             ''SUCCESS''
                                 in (Inr (sub_id s), db5)))))))"

text \<open>\<open>cancelInvestment\<close>: \<open>Inr ()\<close> is \<open>{success: true}\<close>. The refund and the
  penalty are visible in the audit record and in the refund transaction.\<close>

definition cancelInvestment :: "database \<Rightarrow> int \<Rightarrow> nat \<Rightarrow> nat \<Rightarrow> (error + unit) \<times> database" where
  "cancelInvestment db now userId subscriptionId =
     (case find (\<lambda>s. sub_id s = subscriptionId \<and> sub_user_id s = userId) (subscriptions db) of
        None \<Rightarrow> (Inl InvestmentNotFound, db)
      | Some s \<Rightarrow>
          if status s \<noteq> ACTIVE then (Inl InvestmentNotActive, db)
          else
            (let daysSinceStart = (now - start_date s) div day_ms;
                 penalty = (if daysSinceStart < 30 then amount s * (5 / 100) else 0);
                 refundAmount = (if daysSinceStart < 30 then amount s - penalty else amount s);
                 db1 = updateSubscription db subscriptionId
                         \<lparr>upd_status = Some CANCELLED, upd_total_earned = None\<rparr>;
                 db2 = (case find (\<lambda>w. wallet_asset w = USDT) (getUserWallets db1 userId) of
                          None \<Rightarrow> db1
                        | Some usdtWallet \<Rightarrow>
                            snd (updateWalletBalance db1 (wallet_id usdtWallet)
                                   (balance usdtWallet + refundAmount)));
                 db3 = snd (db_createTransaction db2 userId DEPOSIT USDT refundAmount COMPLETED
                              None None None);
                 db4 = createAuditLog db3 userId ''INVESTMENT_CANCELLED'' ''subscriptions''
                         subscriptionId
                         (InvestmentCancelledDetails refundAmount penalty daysSinceStart);
                 db5 = createNotification db4 userId ''Investment Cancelled'' ''INFO''
             in (Inr (), db5)))"

text \<open>
  The body of the loop of \<open>processEarnings\<close>, for one row \<open>s\<close> of the snapshot of
  ACTIVE subscriptions read before the loop. The plan is the row joined to the
  subscription by \<open>plans (*)\<close>, read when the sweep starts (\<open>ps\<close> is the plan table at that
  moment). The wallet row \<open>usdtWallet\<close> is read once; both balance updates are
  computed from that row. \<open>now\<close> is the clock reading of \<open>new Date()\<close>, taken as one
  value for the whole sweep.
\<close>

definition processEarnings_body :: "int \<Rightarrow> plan list \<Rightarrow> database \<Rightarrow> subscription \<Rightarrow> database" where
  "processEarnings_body now ps db s =
     (case find (\<lambda>p. plan_id p = sub_plan_id s) ps of
        None \<Rightarrow> db
      | Some p \<Rightarrow>
          (let dailyRate = apy p / 365 / 100;
               dailyEarnings = amount s * dailyRate;
               newTotalEarned = total_earned s + dailyEarnings;
               db1 = updateSubscription db (sub_id s)
                       \<lparr>upd_status = None, upd_total_earned = Some newTotalEarned\<rparr>;
               usdtWallet = find (\<lambda>w. wallet_asset w = USDT) (getUserWallets db1 (sub_user_id s));
               db2 = (case usdtWallet of
                        None \<Rightarrow> db1
                      | Some w \<Rightarrow> snd (updateWalletBalance db1 (wallet_id w)
                                         (balance w + dailyEarnings)));
               db3 = snd (db_createTransaction db2 (sub_user_id s) DEPOSIT USDT dailyEarnings
                            COMPLETED None None None)
           in if now \<ge> end_date s
              then
                (let db4 = updateSubscription db3 (sub_id s)
                             \<lparr>upd_status = Some SUB_COMPLETED, upd_total_earned = None\<rparr>;
                     db5 = (case usdtWallet of
                              None \<Rightarrow> db4
                            | Some w \<Rightarrow> snd (updateWalletBalance db4 (wallet_id w)
                                               (balance w + amount s)));
                     db6 = snd (db_createTransaction db5 (sub_user_id s) DEPOSIT USDT (amount s)
                                  COMPLETED None None None)
                 in createNotification db6 (sub_user_id s) ''Investment Completed'' ''SUCCESS'')
              else db3))"

fun processEarnings_loop :: "int \<Rightarrow> plan list \<Rightarrow> database \<Rightarrow> subscription list \<Rightarrow> database" where
  "processEarnings_loop now ps db [] = db"
| "processEarnings_loop now ps db (s # ss) =
     processEarnings_loop now ps (processEarnings_body now ps db s) ss"

definition processEarnings :: "database \<Rightarrow> int \<Rightarrow> database" where
  "processEarnings db now =
     processEarnings_loop now (plans db) db (filter (\<lambda>s. status s = ACTIVE) (subscriptions db))"

section \<open>Observations and example stores\<close>

text \<open>The balance of the settlement (USDT) wallet that the services find for a user.\<close>

definition usdt_balance :: "database \<Rightarrow> nat \<Rightarrow> rat" where
  "usdt_balance db userId =
     (case find (\<lambda>w. wallet_asset w = USDT) (getUserWallets db userId) of
        None \<Rightarrow> 0
      | Some w \<Rightarrow> balance w)"

definition balances :: "database \<Rightarrow> rat list" where
  "balances db = map balance (wallets db)"

definition starter :: plan where
  "starter = \<lparr>plan_id = 3, plan_name = ''Starter'', duration_days = 30, apy = 11 / 2,
              min_amount = 100, max_amount = Some 1000, is_active = True\<rparr>"

definition vip :: plan where
  "vip = \<lparr>plan_id = 4, plan_name = ''VIP'', duration_days = 40, apy = 25 / 2,
          min_amount = 100, max_amount = None, is_active = True\<rparr>"

definition ex_sub :: subscription where
  "ex_sub = \<lparr>sub_id = 5, sub_user_id = 7, sub_plan_id = 3, amount = 1000, start_date = 0,
             end_date = 30 * day_ms, status = ACTIVE, total_earned = 0\<rparr>"

text \<open>User 7 holds 1 BTC and 2000 USDT and one ACTIVE subscription of 1000 to the
  Starter plan (30 days, 5.5 percent a year), started at time 0.\<close>

definition ex_db :: database where
  "ex_db = \<lparr>wallets = [\<lparr>wallet_id = 1, wallet_user_id = Some 7, wallet_asset = BTC, balance = 1\<rparr>,
                        \<lparr>wallet_id = 2, wallet_user_id = Some 7, wallet_asset = USDT, balance = 2000\<rparr>],
            transactions = [], plans = [starter, vip], subscriptions = [ex_sub],
            notifications = [], audit_logs = [], next_id = 10, failing_wallets = []\<rparr>"

definition ex_invest :: InvestmentRequest where
  "ex_invest = \<lparr>inv_planId = 3, inv_amount = 500, inv_asset = USDT\<rparr>"

text \<open>The same store with the subscription on the VIP plan (40 days, 12.5 percent a year).\<close>

definition ex_vip_db :: database where
  "ex_vip_db = ex_db\<lparr>subscriptions := [ex_sub\<lparr>sub_plan_id := 4, end_date := 40 * day_ms\<rparr>]\<rparr>"



text \<open>The terms of a subscription: every field but the earnings counter.\<close>

definition terms_of :: "subscription \<Rightarrow> nat \<times> nat \<times> nat \<times> rat \<times> int \<times> int \<times> sub_status" where
  "terms_of s = (sub_id s, sub_user_id s, sub_plan_id s, amount s, start_date s, end_date s, status s)"

text \<open>A plan update that doubles the rate of the Starter plan and changes its duration.\<close>

definition ex_plan_update :: plan_update where
  "ex_plan_update = \<lparr>upd_apy = Some 11, upd_duration_days = Some 60, upd_min_amount = None,
                     upd_max_amount = None, upd_is_active = None\<rparr>"

text \<open>The example store with the USDT wallet (row 2) refusing writes.\<close>

definition ex_failing_db :: database where
  "ex_failing_db = ex_db\<lparr>failing_wallets := [2]\<rparr>"

text \<open>The example store with only 3 USDT in the wallet.\<close>

definition ex_low_db :: database where
  "ex_low_db = ex_db\<lparr>wallets := [\<lparr>wallet_id = 2, wallet_user_id = Some 7, wallet_asset = USDT,
                                    balance = 3\<rparr>]\<rparr>"

definition ex_exchange_small :: TransactionRequest where
  "ex_exchange_small = \<lparr>req_type = EXCHANGE, req_asset = USDT, req_amount = 5,
                         fromAsset = Some USDT, toAsset = Some BTC, planId = None\<rparr>"

definition ex_withdraw :: TransactionRequest where
  "ex_withdraw = \<lparr>req_type = WITHDRAW, req_asset = USDT, req_amount = 50, fromAsset = None,
                   toAsset = None, planId = None\<rparr>"

definition ex_withdraw_small :: TransactionRequest where
  "ex_withdraw_small = \<lparr>req_type = WITHDRAW, req_asset = USDT, req_amount = 5, fromAsset = None,
                         toAsset = None, planId = None\<rparr>"

definition ex_rate :: "asset \<Rightarrow> asset \<Rightarrow> rat" where
  "ex_rate a b = 30000"


section \<open>Sequences of operations\<close>

text \<open>
  The operations a client, an administrator and the scheduler run against the store:
  \<open>Submit\<close> is \<open>walletService.createTransaction\<close>, \<open>Approve\<close> and \<open>Reject\<close> are
  the administrator's decisions on a withdrawal, \<open>Sweep\<close> is \<open>processEarnings\<close>,
  \<open>Invest\<close> is \<open>createInvestment\<close> and \<open>Cancel\<close> is \<open>cancelInvestment\<close>. An
  operation that fails leaves the store it had reached.
\<close>

datatype operation =
    Submit nat TransactionRequest
  | Approve nat nat
  | Reject nat nat string
  | Sweep int
  | Invest int nat InvestmentRequest
  | Cancel int nat nat

definition step :: "(asset \<Rightarrow> asset \<Rightarrow> rat) \<Rightarrow> database \<Rightarrow> operation \<Rightarrow> database" where
  "step cv db op =
     (case op of
        Submit userId request \<Rightarrow>
          (case createTransaction cv db userId request of Inl e \<Rightarrow> db | Inr db' \<Rightarrow> db')
      | Approve transactionId adminId \<Rightarrow> snd (approveWithdrawal db transactionId adminId)
      | Reject transactionId adminId reason \<Rightarrow> snd (rejectWithdrawal db transactionId adminId reason)
      | Sweep now \<Rightarrow> processEarnings db now
      | Invest now userId request \<Rightarrow> snd (createInvestment cv db now userId request)
      | Cancel now userId subscriptionId \<Rightarrow> snd (cancelInvestment db now userId subscriptionId))"

text \<open>The stores observed after each operation of a sequence.\<close>

fun run_states :: "(asset \<Rightarrow> asset \<Rightarrow> rat) \<Rightarrow> database \<Rightarrow> operation list \<Rightarrow> database list" where
  "run_states cv db [] = []"
| "run_states cv db (op # ops) = step cv db op # run_states cv (step cv db op) ops"

definition non_negative :: "database \<Rightarrow> bool" where
  "non_negative db = (\<forall>w \<in> set (wallets db). 0 \<le> balance w)"

text \<open>A store is sound when no balance, no principal and no plan rate is negative.\<close>

definition sound :: "database \<Rightarrow> bool" where
  "sound db = (non_negative db \<and> (\<forall>s \<in> set (subscriptions db). 0 \<le> amount s) \<and>
               (\<forall>p \<in> set (plans db). 0 \<le> apy p))"

definition deposit_ok :: "operation \<Rightarrow> bool" where
  "deposit_ok op = (case op of
                      Submit userId request \<Rightarrow> req_type request = DEPOSIT \<longrightarrow> 0 \<le> req_amount request
                    | _ \<Rightarrow> True)"

definition ex_zero_db :: database where
  "ex_zero_db = ex_db\<lparr>wallets := [\<lparr>wallet_id = 2, wallet_user_id = Some 7, wallet_asset = USDT,
                                     balance = 0\<rparr>]\<rparr>"

definition ex_deposit_negative :: TransactionRequest where
  "ex_deposit_negative = \<lparr>req_type = DEPOSIT, req_asset = USDT, req_amount = - 5, fromAsset = None,
                           toAsset = None, planId = None\<rparr>"

definition ex_deposit :: TransactionRequest where
  "ex_deposit = \<lparr>req_type = DEPOSIT, req_asset = USDT, req_amount = 100, fromAsset = None,
                  toAsset = None, planId = None\<rparr>"

definition ex_exchange :: TransactionRequest where
  "ex_exchange = \<lparr>req_type = EXCHANGE, req_asset = USDT, req_amount = 1500, fromAsset = Some USDT,
                   toAsset = Some BTC, planId = None\<rparr>"

text \<open>A deposit, a withdrawal and its approval, an exchange, a sweep, a cancellation,
  a late rejection and an investment request, all by or for user 7.\<close>

definition ex_ops :: "operation list" where
  "ex_ops = [Submit 7 ex_deposit, Submit 7 ex_withdraw, Approve 11 1, Submit 7 ex_exchange,
             Sweep day_ms, Cancel (2 * day_ms) 7 5, Reject 11 1 ''late'', Invest 0 7 ex_invest]"

section \<open>Evaluation rules\<close>

lemmas ex_defs = ex_db_def ex_vip_db_def ex_sub_def starter_def vip_def day_ms_def ex_invest_def
  ex_failing_db_def ex_low_db_def ex_exchange_small_def ex_withdraw_def ex_withdraw_small_def
  ex_rate_def ex_plan_update_def ex_zero_db_def ex_deposit_negative_def ex_deposit_def
  ex_exchange_def ex_ops_def

lemmas db_defs = getUserWallets_def updateWalletBalance_def set_balance_def
  db_createTransaction_def updateTransactionStatus_def set_tx_status_def updateSubscription_def
  apply_subscription_update_def createNotification_def createAuditLog_def createSubscription_def

lemmas wallet_service_defs = validateTransaction_def processDeposit_def processWithdrawal_def
  processExchange_def finishTransaction_def processTransaction_def createTransaction_def
  tx_action_def getTransactionById_def getNetworkFee_def minAmounts_def

section \<open>Lemmas on the store operations and the sweep body\<close>

lemma find_in_set: "find P xs = Some x \<Longrightarrow> x \<in> set xs \<and> P x"
  by (induction xs) (auto split: if_splits)

lemma set_balance_fields [simp]:
  "wallet_id (set_balance wid b w) = wallet_id w"
  "wallet_user_id (set_balance wid b w) = wallet_user_id w"
  "wallet_asset (set_balance wid b w) = wallet_asset w"
  "balance (set_balance wid b w) = (if wallet_id w = wid then b else balance w)"
  by (simp_all add: set_balance_def)

lemma set_balance_absent:
  "find (\<lambda>w. wallet_id w = wid) ws = None \<Longrightarrow> map (set_balance wid b) ws = ws"
  by (induction ws) (auto simp: set_balance_def split: if_splits)

lemma updateWalletBalance_wallets:
  "wallets (snd (updateWalletBalance db wid b)) =
     (if wid \<in> set (failing_wallets db) then wallets db
      else map (set_balance wid b) (wallets db))"
  by (simp add: updateWalletBalance_def set_balance_absent split: option.splits)

lemma updateWalletBalance_frame [simp]:
  "transactions (snd (updateWalletBalance db wid b)) = transactions db"
  "plans (snd (updateWalletBalance db wid b)) = plans db"
  "subscriptions (snd (updateWalletBalance db wid b)) = subscriptions db"
  "notifications (snd (updateWalletBalance db wid b)) = notifications db"
  "audit_logs (snd (updateWalletBalance db wid b)) = audit_logs db"
  "next_id (snd (updateWalletBalance db wid b)) = next_id db"
  "failing_wallets (snd (updateWalletBalance db wid b)) = failing_wallets db"
  by (simp_all add: updateWalletBalance_def split: option.splits)

lemma other_frame [simp]:
  "wallets (updateSubscription db sid u) = wallets db"
  "failing_wallets (updateSubscription db sid u) = failing_wallets db"
  "plans (updateSubscription db sid u) = plans db"
  "wallets (snd (db_createTransaction db uid ty a amt st fa ta pid)) = wallets db"
  "failing_wallets (snd (db_createTransaction db uid ty a amt st fa ta pid)) = failing_wallets db"
  "plans (snd (db_createTransaction db uid ty a amt st fa ta pid)) = plans db"
  "subscriptions (snd (db_createTransaction db uid ty a amt st fa ta pid)) = subscriptions db"
  "wallets (createNotification db uid t nt) = wallets db"
  "failing_wallets (createNotification db uid t nt) = failing_wallets db"
  "plans (createNotification db uid t nt) = plans db"
  "subscriptions (createNotification db uid t nt) = subscriptions db"
  "wallets (createAuditLog db uid act res rid d) = wallets db"
  "failing_wallets (createAuditLog db uid act res rid d) = failing_wallets db"
  "plans (createAuditLog db uid act res rid d) = plans db"
  "subscriptions (createAuditLog db uid act res rid d) = subscriptions db"
  "wallets (updateTransactionStatus db tid st) = wallets db"
  "failing_wallets (updateTransactionStatus db tid st) = failing_wallets db"
  "plans (updateTransactionStatus db tid st) = plans db"
  "subscriptions (updateTransactionStatus db tid st) = subscriptions db"
  by (simp_all add: db_defs Let_def)

lemma body_failing [simp]: "failing_wallets (processEarnings_body now ps db s) = failing_wallets db"
  by (simp add: processEarnings_body_def Let_def split: option.splits)

lemma body_plans [simp]: "plans (processEarnings_body now ps db s) = plans db"
  by (simp add: processEarnings_body_def Let_def split: option.splits)

lemma getUserWallets_updateSubscription [simp]:
  "getUserWallets (updateSubscription db sid u) userId = getUserWallets db userId"
  by (simp add: getUserWallets_def)

lemma body_wallets:
  assumes "now < end_date s"
  shows "wallets (processEarnings_body now ps db s) =
     (case find (\<lambda>p. plan_id p = sub_plan_id s) ps of
        None \<Rightarrow> wallets db
      | Some p \<Rightarrow>
         (case find (\<lambda>w. wallet_asset w = USDT) (getUserWallets db (sub_user_id s)) of
            None \<Rightarrow> wallets db
          | Some w \<Rightarrow>
              if wallet_id w \<in> set (failing_wallets db) then wallets db
              else map (set_balance (wallet_id w) (balance w + amount s * (apy p / 365 / 100)))
                     (wallets db)))"
proof (cases "find (\<lambda>p. plan_id p = sub_plan_id s) ps")
  case None
  then show ?thesis
    by (simp add: processEarnings_body_def)
next
  case p: (Some p)
  show ?thesis
  proof (cases "find (\<lambda>w. wallet_asset w = USDT) (getUserWallets db (sub_user_id s))")
    case None
    with p assms show ?thesis
      by (simp add: processEarnings_body_def Let_def)
  next
    case (Some w)
    with p assms show ?thesis
      by (simp add: processEarnings_body_def Let_def updateWalletBalance_wallets)
  qed
qed



lemma find_user_asset_set:
  "find (\<lambda>w. wallet_asset w = a) (getUserWallets db u) = Some w \<Longrightarrow>
     w \<in> set (wallets db) \<and> wallet_user_id w = Some u \<and> wallet_asset w = a"
  by (auto simp: getUserWallets_def dest: find_in_set)


lemma body_wallet_ids [simp]:
  "now < end_date s \<Longrightarrow> map wallet_id (wallets (processEarnings_body now ps db s)) = map wallet_id (wallets db)"
  by (simp add: body_wallets split: option.splits)



section \<open>Lemmas on the accrual sweep\<close>

lemma terms_of_update [simp]:
  "terms_of (apply_subscription_update sid \<lparr>upd_status = None, upd_total_earned = e\<rparr> s) = terms_of s"
  by (simp add: terms_of_def apply_subscription_update_def)

lemma subscriptions_updateSubscription:
  "subscriptions (updateSubscription db sid u) = map (apply_subscription_update sid u) (subscriptions db)"
  by (simp add: updateSubscription_def)



lemma loop_plans [simp]: "plans (processEarnings_loop now ps db ss) = plans db"
  by (induction ss arbitrary: db) simp_all

lemma loop_failing [simp]: "failing_wallets (processEarnings_loop now ps db ss) = failing_wallets db"
  by (induction ss arbitrary: db) simp_all







section \<open>Lemmas on investment creation\<close>

lemma createInvestment_never_succeeds:
  "fst (createInvestment cv db now userId request) \<noteq> Inr sid"
  by (auto simp: createInvestment_def awaited_transaction_def split: sum.splits option.splits)

section \<open>Lemmas on plan updates\<close>

lemma updatePlan_frame [simp]:
  "wallets (updatePlan db pid upd) = wallets db"
  "subscriptions (updatePlan db pid upd) = subscriptions db"
  "failing_wallets (updatePlan db pid upd) = failing_wallets db"
  by (simp_all add: updatePlan_def)

lemma usdt_balance_updatePlan [simp]: "usdt_balance (updatePlan db pid upd) u = usdt_balance db u"
  by (simp add: usdt_balance_def getUserWallets_def)



section \<open>Lemmas on withdrawals\<close>



lemma getTransactionById_frame [simp]:
  "getTransactionById (createNotification db uid t nt) tid = getTransactionById db tid"
  "getTransactionById (createAuditLog db uid act res rid d) tid = getTransactionById db tid"
  "getTransactionById (snd (updateWalletBalance db wid b)) tid = getTransactionById db tid"
  by (simp_all add: getTransactionById_def createNotification_def createAuditLog_def)






section \<open>Lemmas on exchanges\<close>


section \<open>Lemmas on cancellation\<close>

lemma apply_subscription_update_fields [simp]:
  "sub_id (apply_subscription_update sid u s) = sub_id s"
  "sub_user_id (apply_subscription_update sid u s) = sub_user_id s"
  "sub_plan_id (apply_subscription_update sid u s) = sub_plan_id s"
  "amount (apply_subscription_update sid u s) = amount s"
  "start_date (apply_subscription_update sid u s) = start_date s"
  "end_date (apply_subscription_update sid u s) = end_date s"
  by (simp_all add: apply_subscription_update_def)


lemma usdt_balance_frame [simp]:
  "usdt_balance (updateSubscription db sid u) userId = usdt_balance db userId"
  "usdt_balance (createNotification db uid t nt) userId = usdt_balance db userId"
  "usdt_balance (createAuditLog db uid act res rid d) userId = usdt_balance db userId"
  "usdt_balance (snd (db_createTransaction db uid ty a amt st fa ta pid)) userId = usdt_balance db userId"
  "usdt_balance (updateTransactionStatus db tid st) userId = usdt_balance db userId"
  by (simp_all add: usdt_balance_def getUserWallets_def)


section \<open>Lemmas on the soundness of the store\<close>

lemma sound_updateWalletBalance:
  "sound db \<Longrightarrow> 0 \<le> b \<Longrightarrow> sound (snd (updateWalletBalance db wid b))"
  by (auto simp: sound_def non_negative_def updateWalletBalance_wallets set_balance_def)

lemma sound_simple [simp]:
  "sound (updateSubscription db sid u) = sound db"
  "sound (snd (db_createTransaction db uid ty a amt st fa ta pid)) = sound db"
  "sound (createNotification db uid t nt) = sound db"
  "sound (createAuditLog db uid act res rid d) = sound db"
  "sound (updateTransactionStatus db tid st) = sound db"
  by (simp_all add: sound_def non_negative_def subscriptions_updateSubscription)

lemma find_balance_non_negative:
  "sound db \<Longrightarrow> find (\<lambda>w. wallet_asset w = a) (getUserWallets db u) = Some w \<Longrightarrow> 0 \<le> balance w"
  using find_user_asset_set [of a db u w] by (auto simp: sound_def non_negative_def)

lemma sound_processDeposit:
  assumes "sound db" "0 \<le> amt"
  shows "sound (snd (processDeposit db u a amt))"
proof (cases "find (\<lambda>w. wallet_asset w = a) (getUserWallets db u)")
  case None
  with assms show ?thesis by (simp add: processDeposit_def)
next
  case (Some w)
  from find_balance_non_negative [OF assms(1) Some] assms(2) have "0 \<le> balance w + amt" by simp
  from sound_updateWalletBalance [OF assms(1) this, of "wallet_id w"] Some show ?thesis
    by (auto simp: processDeposit_def split: prod.splits option.splits)
qed

lemma sound_processWithdrawal: 
  assumes "sound db"
  shows "sound (snd (processWithdrawal db u a amt))"
proof (cases "find (\<lambda>w. wallet_asset w = a) (getUserWallets db u)")
  case None
  with assms show ?thesis by (simp add: processWithdrawal_def)
next
  case (Some w)
  show ?thesis
  proof (cases "balance w < amt \<or> balance w < amt + getNetworkFee a")
    case True
    with Some assms show ?thesis by (auto simp: processWithdrawal_def Let_def)
  next
    case False
    then have "0 \<le> balance w - (amt + getNetworkFee a)" by simp
    from sound_updateWalletBalance [OF assms this, of "wallet_id w"] Some False show ?thesis
      by (auto simp: processWithdrawal_def Let_def split: prod.splits option.splits)
  qed
qed

lemma sound_processExchange:
  assumes "sound db" "0 \<le> amt" "0 \<le> cv fa ta"
  shows "sound (snd (processExchange cv db u fa ta amt))"
proof (cases "find (\<lambda>w. wallet_asset w = fa) (getUserWallets db u)")
  case None
  with assms show ?thesis by (simp add: processExchange_def)
next
  case f: (Some fw)
  show ?thesis
  proof (cases "find (\<lambda>w. wallet_asset w = ta) (getUserWallets db u)")
    case None
    with f assms show ?thesis by (simp add: processExchange_def)
  next
    case t: (Some tw)
    show ?thesis
    proof (cases "balance fw < amt")
      case True
      with f t assms show ?thesis by (simp add: processExchange_def)
    next
      case False
      then have 1: "0 \<le> balance fw - amt" by simp
      from find_balance_non_negative [OF assms(1) t] assms(2,3)
      have 2: "0 \<le> balance tw + amt * cv fa ta * (1 - 1 / 1000)" by simp
      from sound_updateWalletBalance [OF sound_updateWalletBalance [OF assms(1) 1] 2]
      show ?thesis using f t False
        by (simp add: processExchange_def Let_def)
    qed
  qed
qed

lemma sound_finishTransaction [simp]: "sound (finishTransaction db t b) = sound db"
  by (simp add: finishTransaction_def)

lemma minAmounts_pos: "0 < minAmounts a"
  by (cases a) (simp_all add: minAmounts_def)

lemma sound_processTransaction:
  assumes "sound db" "\<forall>a b. 0 \<le> cv a b" "0 \<le> tx_amount t"
  shows "sound (processTransaction cv db t)"
proof (cases "tx_type t")
  case DEPOSIT
  with sound_processDeposit [OF assms(1,3), of "tx_user_id t" "tx_asset t"] show ?thesis
    by (auto simp: processTransaction_def split: prod.splits)
next
  case WITHDRAW
  with assms show ?thesis by (simp add: processTransaction_def)
next
  case EXCHANGE
  show ?thesis
  proof (cases "from_asset t")
    case None
    with EXCHANGE assms show ?thesis by (simp add: processTransaction_def)
  next
    case fa: (Some fa)
    show ?thesis
    proof (cases "to_asset t")
      case None
      with fa EXCHANGE assms show ?thesis by (simp add: processTransaction_def)
    next
      case (Some ta)
      from assms(2) have "0 \<le> cv fa ta" by simp
      from sound_processExchange [of db "tx_amount t" cv fa ta "tx_user_id t", OF assms(1,3) this] fa Some EXCHANGE
      show ?thesis by (auto simp: processTransaction_def split: prod.splits)
    qed
  qed
next
  case INVEST
  with assms show ?thesis by (simp add: processTransaction_def)
qed

lemma validate_amount:
  assumes "validateTransaction db u r = None" "req_type r = DEPOSIT \<longrightarrow> 0 \<le> req_amount r"
    "req_type r \<noteq> INVEST"
  shows "0 \<le> req_amount r"
proof (cases "req_type r")
  case DEPOSIT
  with assms show ?thesis by simp
next
  case WITHDRAW
  with assms(1) have "minAmounts (req_asset r) \<le> req_amount r"
    by (auto simp: validateTransaction_def split: option.splits if_splits)
  with minAmounts_pos [of "req_asset r"] show ?thesis by simp
next
  case EXCHANGE
  with assms(1) have "minAmounts (req_asset r) \<le> req_amount r"
    by (auto simp: validateTransaction_def split: option.splits if_splits)
  with minAmounts_pos [of "req_asset r"] show ?thesis by simp
next
  case INVEST
  with assms show ?thesis by simp
qed

lemma sound_createTransaction:
  assumes "sound db" "\<forall>a b. 0 \<le> cv a b" "req_type r = DEPOSIT \<longrightarrow> 0 \<le> req_amount r"
    and "createTransaction cv db u r = Inr db'"
  shows "sound db'"
proof -
  from assms(4) have v: "validateTransaction db u r = None"
    by (auto simp: createTransaction_def split: option.splits)
  let ?t = "\<lparr>tx_id = next_id db, tx_user_id = u, tx_type = req_type r, tx_asset = req_asset r,
                 tx_amount = req_amount r, tx_status = PENDING, from_asset = fromAsset r,
                 to_asset = toAsset r, tx_plan_id = planId r\<rparr>"
  let ?d = "db\<lparr>transactions := transactions db @ [?t], next_id := Suc (next_id db)\<rparr>"
  have d: "sound ?d" using assms(1) by (simp add: sound_def non_negative_def)
  from assms(4) v have e: "db' = createAuditLog (processTransaction cv ?d ?t) u
                      (tx_action (req_type r)) ''transactions'' (next_id db) (TransactionDetails r)"
    by (simp add: createTransaction_def db_createTransaction_def Let_def)
  show ?thesis
  proof (cases "req_type r = INVEST")
    case True
    with d show ?thesis unfolding e by (simp add: processTransaction_def)
  next
    case False
    from validate_amount [OF v assms(3) False] have "0 \<le> tx_amount ?t" by simp
    from sound_processTransaction [OF d assms(2) this] show ?thesis unfolding e by simp
  qed
qed

lemma sound_approveWithdrawal: "sound db \<Longrightarrow> sound (snd (approveWithdrawal db tid adminId))"
proof -
  assume s: "sound db"
  show ?thesis
  proof (cases "getTransactionById db tid")
    case None
    with s show ?thesis by (simp add: approveWithdrawal_def)
  next
    case (Some t)
    from sound_processWithdrawal [OF s, of "tx_user_id t" "tx_asset t" "tx_amount t"] s Some
    show ?thesis
      by (auto simp: approveWithdrawal_def split: prod.splits)
  qed
qed

lemma sound_rejectWithdrawal: "sound db \<Longrightarrow> sound (snd (rejectWithdrawal db tid adminId reason))"
  by (simp add: rejectWithdrawal_def split: option.splits)

lemma sound_body:
  assumes "sound db" "0 \<le> amount s" "\<forall>p \<in> set ps. 0 \<le> apy p"
  shows "sound (processEarnings_body now ps db s)"
proof (cases "find (\<lambda>p. plan_id p = sub_plan_id s) ps")
  case None
  with assms show ?thesis by (simp add: processEarnings_body_def)
next
  case p: (Some p)
  from find_in_set [OF p] assms(3) have "0 \<le> apy p" by blast
  with assms(2) have e: "0 \<le> amount s * (apy p / 365 / 100)" by simp
  show ?thesis
  proof (cases "find (\<lambda>w. wallet_asset w = USDT) (getUserWallets db (sub_user_id s))")
    case None
    with p assms show ?thesis by (simp add: processEarnings_body_def Let_def)
  next
    case (Some w)
    from find_balance_non_negative [OF assms(1) Some] e assms(2)
    have 1: "0 \<le> balance w + amount s * (apy p / 365 / 100)" and 2: "0 \<le> balance w + amount s"
      by simp_all
    let ?u1 = "\<lparr>upd_status = None, upd_total_earned = Some (total_earned s + amount s * (apy p / 365 / 100))\<rparr>"
    let ?d2 = "snd (updateWalletBalance (updateSubscription db (sub_id s) ?u1) (wallet_id w)
                 (balance w + amount s * (apy p / 365 / 100)))"
    have s2: "sound ?d2"
      using assms(1) 1 by (intro sound_updateWalletBalance) simp_all
    let ?d3 = "snd (db_createTransaction ?d2 (sub_user_id s) DEPOSIT USDT
                 (amount s * (apy p / 365 / 100)) COMPLETED None None None)"
    let ?d4 = "updateSubscription ?d3 (sub_id s) \<lparr>upd_status = Some SUB_COMPLETED, upd_total_earned = None\<rparr>"
    have s5: "sound (snd (updateWalletBalance ?d4 (wallet_id w) (balance w + amount s)))"
      using s2 2 by (intro sound_updateWalletBalance) simp_all
    from p Some s2 s5 show ?thesis
      by (simp add: processEarnings_body_def Let_def)
  qed
qed

lemma sound_loop:
  assumes "sound db" "\<forall>s \<in> set ss. 0 \<le> amount s" "\<forall>p \<in> set ps. 0 \<le> apy p"
  shows "sound (processEarnings_loop now ps db ss)"
  using assms
  by (induction ss arbitrary: db) (simp_all add: sound_body)

lemma sound_processEarnings: "sound db \<Longrightarrow> sound (processEarnings db now)"
  unfolding processEarnings_def
  by (rule sound_loop) (auto simp: sound_def)

lemma sound_createInvestment:
  assumes "sound db" "\<forall>a b. 0 \<le> cv a b"
  shows "sound (snd (createInvestment cv db now u r))"
proof -
  let ?r = "\<lparr>req_type = INVEST, req_asset = inv_asset r, req_amount = inv_amount r,
             fromAsset = None, toAsset = None, planId = Some (inv_planId r)\<rparr>"
  have "sound d" if "createTransaction cv db u ?r = Inr d" for d
    using sound_createTransaction [OF assms _ that] by simp
  with assms(1) show ?thesis
    by (auto simp: createInvestment_def awaited_transaction_def split: sum.splits option.splits)
qed

lemma sound_cancelInvestment:
  assumes "sound db"
  shows "sound (snd (cancelInvestment db now u sid))"
proof (cases "find (\<lambda>s. sub_id s = sid \<and> sub_user_id s = u) (subscriptions db)")
  case None
  with assms show ?thesis by (simp add: cancelInvestment_def)
next
  case (Some s)
  from find_in_set [OF Some] assms have a: "0 \<le> amount s" by (auto simp: sound_def)
  then have r: "0 \<le> (if (now - start_date s) div day_ms < 30 then amount s - amount s * (5 / 100) else amount s)"
    by simp
  let ?d1 = "updateSubscription db sid \<lparr>upd_status = Some CANCELLED, upd_total_earned = None\<rparr>"
  show ?thesis
  proof (cases "find (\<lambda>w. wallet_asset w = USDT) (getUserWallets db u)")
    case None
    with Some assms show ?thesis by (simp add: cancelInvestment_def Let_def)
  next
    case w: (Some w)
    from find_balance_non_negative [OF assms w] have b: "0 \<le> balance w" .
    have S: "sound (snd (updateWalletBalance ?d1 (wallet_id w) x))" if "0 \<le> x" for x
      using assms that by (intro sound_updateWalletBalance) simp_all
    from Some w assms a b show ?thesis
      by (auto simp: cancelInvestment_def Let_def intro!: S)
  qed
qed

lemma sound_step:
  assumes "sound db" "\<forall>a b. 0 \<le> cv a b" "deposit_ok op"
  shows "sound (step cv db op)"
proof (cases op)
  case (Submit u r)
  with assms(3) have "req_type r = DEPOSIT \<longrightarrow> 0 \<le> req_amount r"
    by (simp add: deposit_ok_def)
  from sound_createTransaction [OF assms(1,2) this] assms(1) Submit show ?thesis
    by (auto simp: step_def split: sum.splits)
next
  case (Approve t a)
  with assms show ?thesis by (simp add: step_def sound_approveWithdrawal)
next
  case (Reject t a rs)
  with assms show ?thesis by (simp add: step_def sound_rejectWithdrawal)
next
  case (Sweep now)
  with assms show ?thesis by (simp add: step_def sound_processEarnings)
next
  case (Invest now u r)
  with assms show ?thesis by (simp add: step_def sound_createInvestment)
next
  case (Cancel now u s)
  with assms show ?thesis by (simp add: step_def sound_cancelInvestment)
qed

lemma sound_run_states:
  assumes "sound db" "\<forall>a b. 0 \<le> cv a b" "\<forall>op \<in> set ops. deposit_ok op"
  shows "\<forall>d \<in> set (run_states cv db ops). sound d"
  using assms
proof (induction ops arbitrary: db)
  case Nil
  then show ?case by simp
next
  case (Cons op ops)
  from Cons.prems have s: "sound (step cv db op)" by (intro sound_step) simp_all
  from Cons.IH [OF s Cons.prems(2)] Cons.prems(3) s show ?case by simp
qed

section \<open>Accrual sweeps run twice\<close>




section \<open>No negative balances\<close>

text \<open>
  C2 (as amended). Starting from a store in which no balance, no subscription
  principal and no plan rate is negative, with non-negative conversion rates, every
  sequence of submissions, approvals, rejections, sweeps, investment requests and
  cancellations in which every DEPOSIT submission has a non-negative amount leaves every
  wallet balance non-negative after every operation.
\<close>

theorem balances_stay_non_negative:
  assumes "non_negative db"
    and "\<forall>s \<in> set (subscriptions db). 0 \<le> amount s"
    and "\<forall>p \<in> set (plans db). 0 \<le> apy p"
    and "\<forall>a b. 0 \<le> cv a b"
    and "\<forall>op \<in> set ops. deposit_ok op"
  shows "\<forall>d \<in> set (run_states cv db ops). non_negative d"
proof -
  from assms(1-3) have "sound db" by (simp add: sound_def)
  from sound_run_states [OF this assms(4,5)] show ?thesis by (simp add: sound_def)
qed

theorem balances_stay_non_negative_witness:
  "list_all non_negative (run_states ex_rate ex_db ex_ops) \<and>
   map balances (run_states ex_rate ex_db ex_ops) =
   [[1, 2100], [1, 2100], [1, 2049], [44955001, 549], [44955001, 549 + 11 / 73],
    [44955001, 1499 + 11 / 73], [44955001, 1499 + 11 / 73], [44955001, 1499 + 11 / 73]]"
proof -
  have 1: "non_negative ex_db"
    by (simp add: non_negative_def ex_defs)
  have 2: "\<forall>s \<in> set (subscriptions ex_db). 0 \<le> amount s"
    by (simp add: ex_defs)
  have 3: "\<forall>p \<in> set (plans ex_db). 0 \<le> apy p"
    by (simp add: ex_defs)
  have 4: "\<forall>a b. 0 \<le> ex_rate a b"
    by (simp add: ex_rate_def)
  have 5: "\<forall>op \<in> set ex_ops. deposit_ok op"
    by (simp add: ex_ops_def deposit_ok_def ex_defs)
  from balances_stay_non_negative [OF 1 2 3 4 5]
  have "list_all non_negative (run_states ex_rate ex_db ex_ops)"
    by (simp add: list_all_iff)
  moreover have "map balances (run_states ex_rate ex_db ex_ops) =
   [[1, 2100], [1, 2100], [1, 2049], [44955001, 549], [44955001, 549 + 11 / 73],
    [44955001, 1499 + 11 / 73], [44955001, 1499 + 11 / 73], [44955001, 1499 + 11 / 73]]"
    by code_simp
  ultimately show ?thesis by (rule conjI)
qed

text \<open>
  C2 as stated fails: deposits are not validated, so submitting a DEPOSIT of -5 USDT
  to a wallet holding 0 completes and leaves the balance at -5.
\<close>

theorem negative_deposit_overdraws:
  "balances ex_zero_db = [0] \<and>
   map balances (run_states ex_rate ex_zero_db [Submit 7 ex_deposit_negative]) = [[- 5]]"
  by (simp add: step_def balances_def wallet_service_defs ex_defs db_defs Let_def)

section \<open>Withdrawals in two phases\<close>




section \<open>The two legs of an exchange\<close>




section \<open>Maturity payout\<close>

text \<open>
  C5. At the end date the sweep is to credit the principal in addition to the day's
  earnings, both reflected in the final balance. Evaluated on the example store at the
  end date of the subscription (principal 1000, 5.5 percent a year, 30 days): the
  subscription becomes COMPLETED and two credits are recorded, 11/73 (the day's
  earnings) and 1000, but the balance goes from 2000 to 3000: the principal credit is
  computed from the wallet row read before the earnings were credited and overwrites
  them.
\<close>

theorem maturity_overwrites_earnings:
  "usdt_balance ex_db 7 = 2000 \<and>
   usdt_balance (processEarnings ex_db (30 * day_ms)) 7 = 3000 \<and>
   map tx_amount (transactions (processEarnings ex_db (30 * day_ms))) = [1000 * (11 / 2 / 365 / 100), 1000] \<and>
   map status (subscriptions (processEarnings ex_db (30 * day_ms))) = [SUB_COMPLETED] \<and>
   processEarnings (processEarnings ex_db (30 * day_ms)) (30 * day_ms) = processEarnings ex_db (30 * day_ms)"
  by (simp add: processEarnings_def processEarnings_body_def usdt_balance_def ex_defs db_defs Let_def)

section \<open>Investment creation\<close>

text \<open>
  C6. A valid INVEST submission is to debit the wallet, create an ACTIVE subscription
  and report success with its id. Evaluated on the example store for a request of 500
  USDT to the Starter plan (active, range 100 to 1000, balance 2000): the INVEST
  transaction is recorded and marked COMPLETED, then the operation reports
  "Failed to create investment transaction"; no subscription is created and the
  balance is not debited.
\<close>

theorem createInvestment_reports_failure:
  "fst (createInvestment cv ex_db 0 7 ex_invest) = Inl FailedToCreateInvestmentTransaction \<and>
   subscriptions (snd (createInvestment cv ex_db 0 7 ex_invest)) = subscriptions ex_db \<and>
   wallets (snd (createInvestment cv ex_db 0 7 ex_invest)) = wallets ex_db \<and>
   map tx_type (transactions (snd (createInvestment cv ex_db 0 7 ex_invest))) = [INVEST] \<and>
   map tx_status (transactions (snd (createInvestment cv ex_db 0 7 ex_invest))) = [COMPLETED]"
  by (simp add: createInvestment_def validateInvestment_def awaited_transaction_def
      wallet_service_defs ex_defs db_defs Let_def)

section \<open>Plan updates and running subscriptions\<close>




section \<open>Cancellation penalty\<close>



section \<open>Cancellation: status change and refund\<close>




section \<open>Minimum amounts\<close>

text \<open>
  C10 (as amended). A WITHDRAW or EXCHANGE request whose amount is below the
  threshold of the request's asset (BTC 0.001, ETH 0.01, USDT 10, USDC 10) fails
  validation, so that no transaction is recorded and no balance changes. The error is the
  minimum-amount error when the wallet exists and holds at least the amount; the earlier
  checks answer "Wallet not found" or "Insufficient balance" otherwise.
\<close>

theorem below_minimum_rejected:
  assumes "req_type r = EXCHANGE \<or> req_type r = WITHDRAW"
      and "req_amount r < minAmounts (req_asset r)"
  shows "createTransaction cv db userId r =
           Inl (case find (\<lambda>w. wallet_asset w = req_asset r) (getUserWallets db userId) of
                  None \<Rightarrow> WalletNotFound
                | Some w \<Rightarrow> if balance w < req_amount r then InsufficientBalance
                            else MinimumAmount (req_asset r) (minAmounts (req_asset r))) \<and>
         minAmounts BTC = 1 / 1000 \<and> minAmounts ETH = 1 / 100 \<and>
         minAmounts USDT = 10 \<and> minAmounts USDC = 10"
  using assms
  by (auto simp: createTransaction_def validateTransaction_def minAmounts_def split: option.splits)

theorem below_minimum_rejected_witness:
  "createTransaction ex_rate ex_db 7 ex_exchange_small = Inl (MinimumAmount USDT 10)"
proof -
  have t: "req_type ex_exchange_small = EXCHANGE \<or> req_type ex_exchange_small = WITHDRAW"
    by (simp add: ex_defs)
  have a: "req_amount ex_exchange_small < minAmounts (req_asset ex_exchange_small)"
    by (simp add: minAmounts_def ex_defs)
  from below_minimum_rejected [OF t a, of ex_rate ex_db 7, THEN conjunct1]
  show ?thesis by (simp add: getUserWallets_def ex_defs minAmounts_def)
qed

text \<open>
  C10 as stated fails: an EXCHANGE of 5 USDT (below the threshold of 10) from a wallet
  holding 3 USDT is refused with "Insufficient balance", not with the minimum-amount
  error.
\<close>

theorem below_minimum_other_error:
  "req_type ex_exchange_small = EXCHANGE \<and>
   req_amount ex_exchange_small < minAmounts (req_asset ex_exchange_small) \<and>
   createTransaction ex_rate ex_low_db 7 ex_exchange_small = Inl InsufficientBalance"
  by (simp add: createTransaction_def validateTransaction_def getUserWallets_def minAmounts_def
      ex_defs)

end
